theory Spec2Isabelle
  imports Main
begin

section \<open>Python values and exceptions\<close>

text \<open>
  The adapters exchange dynamically typed values with the database drivers: parameter
  maps, node property maps and the multi-model client's per-statement result envelope.
  A dictionary is an association list read with \<open>map_of\<close> (Python keeps one value
  per key; the first binding of the list is the one that counts).
\<close>

datatype pyval =
    PNone
  | PBool bool
  | PInt int
  | PStr string
  | PList "pyval list"
  | PDict "(string \<times> pyval) list"

type_synonym pydict = "(string \<times> pyval) list"

text \<open>Python truthiness, as \<open>if x\<close>, \<open>x and y\<close> and \<open>x or y\<close> test it.\<close>

fun truthy :: "pyval \<Rightarrow> bool" where
  "truthy PNone = False"
| "truthy (PBool b) = b"
| "truthy (PInt i) = (i \<noteq> 0)"
| "truthy (PStr s) = (s \<noteq> [])"
| "truthy (PList xs) = (xs \<noteq> [])"
| "truthy (PDict d) = (d \<noteq> [])"

text \<open>
  Exceptions are values: the class that \<open>except\<close> clauses test and the message that
  \<open>str(e)\<close> returns.  Only classes deriving from \<open>Exception\<close> are modelled, so
  \<open>except Exception\<close> catches every value of the type.  \<open>ConnectionError\<close>,
  \<open>ValueError\<close>, \<open>AttributeError\<close>, \<open>TypeError\<close>, \<open>KeyError\<close> and the plain
  \<open>Exception\<close> are Python's own;
  \<open>DriverError\<close> and \<open>Neo4jError\<close> are the two roots of the Neo4j driver's
  exception hierarchy (neither derives from the other); \<open>BackendError\<close> stands for
  whatever else a driver raises.
\<close>

datatype exn_class =
    ConnectionError
  | ValueError
  | AttributeError
  | TypeError
  | KeyError
  | PlainException
  | DriverError
  | Neo4jError
  | BackendError

datatype exn = Exn exn_class string

fun exn_cls :: "exn \<Rightarrow> exn_class" where
  "exn_cls (Exn c m) = c"

fun str_of :: "exn \<Rightarrow> string" where
  "str_of (Exn c m) = m"

section \<open>The adapters' own state\<close>

text \<open>
  \<open>Neo4jAdapter.__init__\<close> sets \<open>self.driver = None\<close>; \<open>SurrealDBAdapter.__init__\<close>
  sets \<open>client\<close>, \<open>namespace\<close> and \<open>database\<close> to \<open>None\<close>.  A driver or client
  object is a handle; such objects are always truthy, so \<open>if not self.driver\<close> tests
  for \<open>None\<close>.
\<close>

type_synonym handle = nat

record neo4j_adapter =
  driver :: "handle option"

record surreal_adapter =
  client :: "handle option"
  namespace :: "string option"
  database :: "string option"

definition Neo4jAdapter_init :: neo4j_adapter where
  "Neo4jAdapter_init = \<lparr>driver = None\<rparr>"

definition SurrealDBAdapter_init :: surreal_adapter where
  "SurrealDBAdapter_init = \<lparr>client = None, namespace = None, database = None\<rparr>"

section \<open>The factory (db\_factory.py)\<close>

text \<open>
  \<open>DatabaseType\<close> is a \<open>str\<close>-mixin enumeration with the two values \<open>"neo4j"\<close> and
  \<open>"surrealdb"\<close>, so \<open>db_type == DatabaseType.NEO4J\<close> is string equality with
  \<open>"neo4j"\<close>, whether the caller passes the member or a plain string.  The tag is
  therefore modelled as a string.
\<close>

definition DatabaseType_NEO4J :: string where
  "DatabaseType_NEO4J = ''neo4j''"

definition DatabaseType_SURREALDB :: string where
  "DatabaseType_SURREALDB = ''surrealdb''"

datatype adapter = Neo4jAdapterObj neo4j_adapter | SurrealDBAdapterObj surreal_adapter

datatype adapter_class = Neo4jAdapterClass | SurrealDBAdapterClass

definition create_db_adapter :: "string \<Rightarrow> exn + adapter" where
  "create_db_adapter db_type =
     (if db_type = DatabaseType_NEO4J then Inr (Neo4jAdapterObj Neo4jAdapter_init)
      else if db_type = DatabaseType_SURREALDB then Inr (SurrealDBAdapterObj SurrealDBAdapter_init)
      else Inl (Exn ValueError (''Unsupported database type: '' @ db_type)))"

definition get_adapter_class :: "string \<Rightarrow> exn + adapter_class" where
  "get_adapter_class db_type =
     (if db_type = DatabaseType_NEO4J then Inr Neo4jAdapterClass
      else if db_type = DatabaseType_SURREALDB then Inr SurrealDBAdapterClass
      else Inl (Exn ValueError (''Unsupported database type: '' @ db_type)))"

text \<open>
  The configuration layer (\<open>Settings.get_db_type\<close> in graph\_service/config.py and
  \<open>DatabaseConfig.get_db_type\<close> in surrealdb\_patch.py) is where letter case is
  folded: \<open>self.database_type.lower() == 'surrealdb'\<close> selects the multi-model
  backend and every other string selects Neo4j.  \<open>str.lower\<close> is modelled on ASCII.
\<close>

definition lower_char :: "char \<Rightarrow> char" where
  "lower_char c =
     (let n = (of_char c :: nat) in if 65 \<le> n \<and> n \<le> 90 then char_of (n + 32) else c)"

definition lower :: "string \<Rightarrow> string" where
  "lower s = map lower_char s"

definition get_db_type :: "string \<Rightarrow> string" where
  "get_db_type database_type =
     (if lower database_type = ''surrealdb'' then DatabaseType_SURREALDB else DatabaseType_NEO4J)"

section \<open>Effects: calls into a driver\<close>

text \<open>
  A driver call may change the world outside the process (the server, the connection
  pool) and may raise.  A computation takes the state and returns the exception or the
  value, with the state it leaves behind; an exception does not undo what was done
  before it.  \<open>await\<close> is sequencing: the model is one task, so the multi-model
  adapter's \<open>if hasattr(result, "__await__"): result = await result\<close> is the call
  itself.
\<close>

type_synonym ('a, 's) io = "'s \<Rightarrow> (exn + 'a) \<times> 's"

definition return_io :: "'a \<Rightarrow> ('a, 's) io" where
  "return_io x = (\<lambda>s. (Inr x, s))"

definition raise_io :: "exn \<Rightarrow> ('a, 's) io" where
  "raise_io e = (\<lambda>s. (Inl e, s))"

definition bind_io :: "('a, 's) io \<Rightarrow> ('a \<Rightarrow> ('b, 's) io) \<Rightarrow> ('b, 's) io" where
  "bind_io m f = (\<lambda>s. case m s of (Inl e, s') \<Rightarrow> (Inl e, s') | (Inr x, s') \<Rightarrow> f x s')"

text \<open>\<open>try: m except ... as e: handler e\<close>; a handler that does not match re-raises.\<close>

definition try_except :: "('a, 's) io \<Rightarrow> (exn \<Rightarrow> ('a, 's) io) \<Rightarrow> ('a, 's) io" where
  "try_except m handler = (\<lambda>s. case m s of (Inl e, s') \<Rightarrow> handler e s' | (Inr x, s') \<Rightarrow> (Inr x, s'))"

text \<open>
  A method runs on the adapter object and the outside world together.  \<open>on_world\<close>
  is a driver call made from a method; \<open>get_self\<close> reads the object and \<open>set_self\<close>
  assigns attributes of it.
\<close>

definition on_world :: "('a, 'w) io \<Rightarrow> ('a, 'obj \<times> 'w) io" where
  "on_world m = (\<lambda>(a, w). case m w of (r, w') \<Rightarrow> (r, (a, w')))"

definition get_self :: "('obj, 'obj \<times> 'w) io" where
  "get_self = (\<lambda>(a, w). (Inr a, (a, w)))"

definition set_self :: "('obj \<Rightarrow> 'obj) \<Rightarrow> (unit, 'obj \<times> 'w) io" where
  "set_self f = (\<lambda>(a, w). (Inr (), (f a, w)))"

text \<open>A sequence of calls whose values are dropped, stopping at the first exception.\<close>

fun each_io :: "('x \<Rightarrow> ('a, 's) io) \<Rightarrow> 'x list \<Rightarrow> (unit, 's) io" where
  "each_io f [] = return_io ()"
| "each_io f (x # xs) = bind_io (f x) (\<lambda>_. each_io f xs)"

section \<open>The Neo4j driver, as the adapter uses it\<close>

text \<open>
  The driver is outside the repository; the adapter is parameterised by it.  A cell of
  a result row is null or a node; \<open>dict(node)\<close> is the node's property map, and a
  node is truthy when it has a property (\<open>neo4j.graph.Entity\<close> defines \<open>__len__\<close> as
  the number of properties and no \<open>__bool__\<close>).
  \<^item> \<open>driver_new uri user password\<close> is \<open>AsyncGraphDatabase.driver(uri, auth=(user, password))\<close>;
  \<^item> \<open>driver_session h\<close> is \<open>h.session()\<close>, entered;
  \<^item> \<open>session_run s q params\<close> is \<open>await s.run(q, params)\<close> (\<open>None\<close>: \<open>s.run(q)\<close>);
  \<^item> \<open>session_exit s\<close> is what leaving \<open>async with\<close> does;
  \<^item> \<open>result_values c\<close> is \<open>await c.values()\<close>;
  \<^item> \<open>driver_close h\<close> is \<open>await h.close()\<close>.
\<close>

datatype cell = Null | Node pydict

fun cell_truthy :: "cell \<Rightarrow> bool" where
  "cell_truthy Null = False"
| "cell_truthy (Node props) = (props \<noteq> [])"

record ('w, 'c) neo4j_api =
  driver_new :: "string \<Rightarrow> string \<Rightarrow> string \<Rightarrow> (handle, 'w) io"
  driver_session :: "handle \<Rightarrow> (handle, 'w) io"
  session_run :: "handle \<Rightarrow> string \<Rightarrow> pydict option \<Rightarrow> ('c, 'w) io"
  session_exit :: "handle \<Rightarrow> (unit, 'w) io"
  result_values :: "'c \<Rightarrow> (cell list list, 'w) io"
  driver_close :: "handle \<Rightarrow> (unit, 'w) io"

text \<open>
  \<open>async with h.session() as session: body\<close>: the session is left whether the body
  returned or raised; an exception raised on leaving replaces the body's outcome.
\<close>

definition with_session :: "('w, 'c) neo4j_api \<Rightarrow> handle \<Rightarrow> (handle \<Rightarrow> ('a, 'w) io) \<Rightarrow> ('a, 'w) io" where
  "with_session api h body =
     (\<lambda>w. case driver_session api h w of
            (Inl e, w1) \<Rightarrow> (Inl e, w1)
          | (Inr s, w1) \<Rightarrow>
              (case body s w1 of
                 (r, w2) \<Rightarrow>
                   (case session_exit api s w2 of
                      (Inl e, w3) \<Rightarrow> (Inl e, w3)
                    | (Inr u, w3) \<Rightarrow> (r, w3))))"

section \<open>Neo4jAdapter (neo4j\_adapter.py)\<close>

definition neo4j_not_connected :: exn where
  "neo4j_not_connected = Exn ConnectionError ''Not connected to Neo4j''"

text \<open>
  \<open>connect\<close>: the driver object is stored in \<open>self.driver\<close> before the probe
  (\<open>RETURN 1\<close> in a session of its own) runs, and the handler catches
  \<open>DriverError\<close> only.
\<close>

definition neo4j_probe :: "('w, 'c) neo4j_api \<Rightarrow> handle \<Rightarrow> (unit, 'w) io" where
  "neo4j_probe api h =
     with_session api h (\<lambda>s. bind_io (session_run api s ''RETURN 1'' None) (\<lambda>_. return_io ()))"

definition neo4j_connect ::
  "('w, 'c) neo4j_api \<Rightarrow> string \<Rightarrow> string \<Rightarrow> string \<Rightarrow> (unit, neo4j_adapter \<times> 'w) io" where
  "neo4j_connect api uri user password =
     try_except
       (bind_io (on_world (driver_new api uri user password)) (\<lambda>h.
        bind_io (set_self (\<lambda>a. a\<lparr>driver := Some h\<rparr>)) (\<lambda>_.
        on_world (neo4j_probe api h))))
       (\<lambda>e. if exn_cls e = DriverError
            then raise_io (Exn ConnectionError (''Failed to connect to Neo4j: '' @ str_of e))
            else raise_io e)"

definition neo4j_close :: "('w, 'c) neo4j_api \<Rightarrow> (unit, neo4j_adapter \<times> 'w) io" where
  "neo4j_close api =
     bind_io get_self (\<lambda>a.
       case driver a of
         None \<Rightarrow> return_io ()
       | Some h \<Rightarrow>
           bind_io (on_world (driver_close api h)) (\<lambda>_.
           set_self (\<lambda>a. a\<lparr>driver := None\<rparr>)))"

definition neo4j_get_driver :: "('w, 'c) neo4j_api \<Rightarrow> (handle, neo4j_adapter \<times> 'w) io" where
  "neo4j_get_driver api =
     bind_io get_self (\<lambda>a.
       case driver a of
         None \<Rightarrow> raise_io neo4j_not_connected
       | Some h \<Rightarrow> return_io h)"

definition neo4j_get_session :: "('w, 'c) neo4j_api \<Rightarrow> (handle, neo4j_adapter \<times> 'w) io" where
  "neo4j_get_session api =
     bind_io get_self (\<lambda>a.
       case driver a of
         None \<Rightarrow> raise_io neo4j_not_connected
       | Some h \<Rightarrow> on_world (driver_session api h))"

text \<open>\<open>params = parameters or {}\<close>: \<open>None\<close> and the empty dictionary are both falsy.\<close>

definition params_or_empty :: "pydict option \<Rightarrow> pydict" where
  "params_or_empty parameters =
     (case parameters of None \<Rightarrow> [] | Some d \<Rightarrow> (if d \<noteq> [] then d else []))"

definition neo4j_execute_query ::
  "('w, 'c) neo4j_api \<Rightarrow> string \<Rightarrow> pydict option \<Rightarrow> ('c, neo4j_adapter \<times> 'w) io" where
  "neo4j_execute_query api query parameters =
     bind_io get_self (\<lambda>a.
       case driver a of
         None \<Rightarrow> raise_io neo4j_not_connected
       | Some h \<Rightarrow>
           (let params = params_or_empty parameters in
            try_except
              (on_world (with_session api h (\<lambda>s. session_run api s query (Some params))))
              (\<lambda>e. raise_io (Exn PlainException (''Error executing Neo4j query: '' @ str_of e)))))"

text \<open>
  \<open>build_indices\<close>: one session; the optional schema reset; then the ten statements
  in the order of the source.  Nothing is caught: a driver exception leaves the method
  as it is.
\<close>

definition neo4j_schema_reset :: string where
  "neo4j_schema_reset = ''CALL apoc.schema.assert({}, {}, true)''"

definition neo4j_schema_statements :: "string list" where
  "neo4j_schema_statements =
     [''CREATE CONSTRAINT IF NOT EXISTS FOR (n:Episode) REQUIRE n.id IS UNIQUE'',
      ''CREATE CONSTRAINT IF NOT EXISTS FOR (n:Message) REQUIRE n.id IS UNIQUE'',
      ''CREATE CONSTRAINT IF NOT EXISTS FOR (n:Entity) REQUIRE n.id IS UNIQUE'',
      ''CREATE CONSTRAINT IF NOT EXISTS FOR (n:Message) REQUIRE n.timestamp IS NOT NULL'',
      ''CREATE CONSTRAINT IF NOT EXISTS FOR (n:Episode) REQUIRE n.created_at IS NOT NULL'',
      ''CREATE INDEX IF NOT EXISTS FOR (n:Episode) ON (n.created_at)'',
      ''CREATE INDEX IF NOT EXISTS FOR (n:Message) ON (n.timestamp)'',
      ''CREATE INDEX IF NOT EXISTS FOR (n:Message) ON (n.role)'',
      ''CREATE INDEX IF NOT EXISTS FOR (n:Entity) ON (n.type)'',
      ''CREATE INDEX IF NOT EXISTS FOR (n:Entity) ON (n.name)'']"

definition neo4j_build_indices ::
  "('w, 'c) neo4j_api \<Rightarrow> bool \<Rightarrow> (unit, neo4j_adapter \<times> 'w) io" where
  "neo4j_build_indices api delete_existing =
     bind_io get_self (\<lambda>a.
       case driver a of
         None \<Rightarrow> raise_io neo4j_not_connected
       | Some h \<Rightarrow>
           on_world (with_session api h (\<lambda>s.
             bind_io (if delete_existing
                      then bind_io (session_run api s neo4j_schema_reset None) (\<lambda>_. return_io ())
                      else return_io ()) (\<lambda>_.
             each_io (\<lambda>q. session_run api s q None) neo4j_schema_statements))))"

definition neo4j_delete_all :: string where
  "neo4j_delete_all = ''MATCH (n) DETACH DELETE n''"

definition neo4j_clear_all_data :: "('w, 'c) neo4j_api \<Rightarrow> (unit, neo4j_adapter \<times> 'w) io" where
  "neo4j_clear_all_data api =
     bind_io get_self (\<lambda>a.
       case driver a of
         None \<Rightarrow> raise_io neo4j_not_connected
       | Some h \<Rightarrow>
           on_world (with_session api h (\<lambda>s.
             bind_io (session_run api s neo4j_delete_all None) (\<lambda>_. return_io ()))))"

text \<open>The triple-quoted queries, with the line breaks and indentation of the source.\<close>

definition spaces :: "nat \<Rightarrow> string" where
  "spaces n = replicate n (CHR '' '')"

definition newline :: string where
  "newline = [CHR 0x0A]"

definition neo4j_episodes_query :: string where
  "neo4j_episodes_query =
     newline @ spaces 16 @ ''MATCH (e:Episode)'' @
     newline @ spaces 16 @ ''RETURN e'' @
     newline @ spaces 16 @ ''ORDER BY e.created_at DESC'' @
     newline @ spaces 16"

definition neo4j_one_episode_query :: string where
  "neo4j_one_episode_query =
     newline @ spaces 16 @ ''MATCH (e:Episode {id: $episode_id})'' @
     newline @ spaces 16 @ ''RETURN e'' @
     newline @ spaces 16"

text \<open>
  \<open>if record and record[0]: episodes.append(dict(record[0]))\<close>: a row counts when it
  has a first cell and that cell is truthy.
\<close>

fun episode_of_record :: "cell list \<Rightarrow> pydict option" where
  "episode_of_record [] = None"
| "episode_of_record (Null # cs) = None"
| "episode_of_record (Node props # cs) = (if cell_truthy (Node props) then Some props else None)"

definition neo4j_get_episodes :: "('w, 'c) neo4j_api \<Rightarrow> (pydict list, neo4j_adapter \<times> 'w) io" where
  "neo4j_get_episodes api =
     bind_io get_self (\<lambda>a.
       case driver a of
         None \<Rightarrow> raise_io neo4j_not_connected
       | Some h \<Rightarrow>
           on_world (with_session api h (\<lambda>s.
             bind_io (session_run api s neo4j_episodes_query None) (\<lambda>result.
             bind_io (result_values api result) (\<lambda>records.
             return_io (List.map_filter episode_of_record records))))))"

text \<open>
  \<open>if records and records[0] and records[0][0]: return dict(records[0][0])\<close>, else
  \<open>None\<close>.
\<close>

fun first_episode :: "cell list list \<Rightarrow> pydict option" where
  "first_episode [] = None"
| "first_episode (record # records) = episode_of_record record"

definition neo4j_get_one_episode ::
  "('w, 'c) neo4j_api \<Rightarrow> string \<Rightarrow> (pydict option, neo4j_adapter \<times> 'w) io" where
  "neo4j_get_one_episode api episode_id =
     bind_io get_self (\<lambda>a.
       case driver a of
         None \<Rightarrow> raise_io neo4j_not_connected
       | Some h \<Rightarrow>
           on_world (with_session api h (\<lambda>s.
             bind_io (session_run api s neo4j_one_episode_query
                        (Some [(''episode_id'', PStr episode_id)])) (\<lambda>result.
             bind_io (result_values api result) (\<lambda>records.
             return_io (first_episode records))))))"

section \<open>The multi-model client, as the adapter uses it\<close>

text \<open>
  \<^item> \<open>surreal_new uri\<close> is \<open>Surreal(uri)\<close>;
  \<^item> \<open>client_signin h creds\<close> is \<open>h.signin(creds)\<close>, awaited when awaitable;
  \<^item> \<open>client_select h ns db\<close> is \<open>h.use(ns, db)\<close>, awaited when awaitable;
  \<^item> \<open>client_query h q params\<close> is \<open>h.query(q, params)\<close> (\<open>None\<close>: \<open>h.query(q)\<close>),
    awaited when awaitable; its value is the per-statement result envelope;
  \<^item> \<open>client_close h\<close> is \<open>await h.close()\<close>.
\<close>

record 'w surreal_api =
  surreal_new :: "string \<Rightarrow> (handle, 'w) io"
  client_signin :: "handle \<Rightarrow> pydict \<Rightarrow> (unit, 'w) io"
  client_select :: "handle \<Rightarrow> string \<Rightarrow> string \<Rightarrow> (unit, 'w) io"
  client_query :: "handle \<Rightarrow> string \<Rightarrow> pydict option \<Rightarrow> (pyval, 'w) io"
  client_close :: "handle \<Rightarrow> (unit, 'w) io"

section \<open>SurrealDBAdapter (surrealdb\_adapter.py)\<close>

definition surreal_not_connected :: exn where
  "surreal_not_connected = Exn ConnectionError ''Not connected to SurrealDB''"

text \<open>
  \<open>connect\<close>: namespace and database are stored first, then the client object, then
  sign-in and scope selection run inside an inner \<open>try\<close> whose \<open>ConnectionError\<close> the
  outer \<open>except Exception\<close> catches and wraps again.  (The logging set up between
  the two writes to standard output only and is left out.)
\<close>

definition surreal_connect ::
  "'w surreal_api \<Rightarrow> string \<Rightarrow> string \<Rightarrow> string \<Rightarrow> string \<Rightarrow> string \<Rightarrow>
     (unit, surreal_adapter \<times> 'w) io" where
  "surreal_connect api uri user password ns db =
     try_except
       (bind_io (set_self (\<lambda>a. a\<lparr>namespace := Some ns, database := Some db\<rparr>)) (\<lambda>_.
        bind_io (on_world (surreal_new api uri)) (\<lambda>h.
        bind_io (set_self (\<lambda>a. a\<lparr>client := Some h\<rparr>)) (\<lambda>_.
        try_except
          (bind_io (on_world (client_signin api h
                      [(''username'', PStr user), (''password'', PStr password)])) (\<lambda>_.
           on_world (client_select api h ns db)))
          (\<lambda>e. raise_io (Exn ConnectionError (''Failed to connect to SurrealDB: '' @ str_of e)))))))
       (\<lambda>e. raise_io (Exn ConnectionError (''Failed to connect to SurrealDB: '' @ str_of e)))"

definition surreal_close :: "'w surreal_api \<Rightarrow> (unit, surreal_adapter \<times> 'w) io" where
  "surreal_close api =
     bind_io get_self (\<lambda>a.
       case client a of
         None \<Rightarrow> return_io ()
       | Some h \<Rightarrow>
           bind_io (on_world (client_close api h)) (\<lambda>_.
           set_self (\<lambda>a. a\<lparr>client := None\<rparr>)))"

definition surreal_get_driver :: "'w surreal_api \<Rightarrow> (handle, surreal_adapter \<times> 'w) io" where
  "surreal_get_driver api =
     bind_io get_self (\<lambda>a.
       case client a of
         None \<Rightarrow> raise_io surreal_not_connected
       | Some h \<Rightarrow> return_io h)"

definition surreal_get_session :: "'w surreal_api \<Rightarrow> (handle, surreal_adapter \<times> 'w) io" where
  "surreal_get_session api =
     bind_io get_self (\<lambda>a.
       case client a of
         None \<Rightarrow> raise_io surreal_not_connected
       | Some h \<Rightarrow> return_io h)"

definition surreal_execute_query ::
  "'w surreal_api \<Rightarrow> string \<Rightarrow> pydict option \<Rightarrow> (pyval, surreal_adapter \<times> 'w) io" where
  "surreal_execute_query api query parameters =
     bind_io get_self (\<lambda>a.
       case client a of
         None \<Rightarrow> raise_io surreal_not_connected
       | Some h \<Rightarrow>
           (let params = params_or_empty parameters in
            try_except
              (on_world (client_query api h query (Some params)))
              (\<lambda>e. raise_io (Exn PlainException (''Error executing SurrealDB query: '' @ str_of e)))))"

definition surreal_tables :: "string list" where
  "surreal_tables = [''Episode'', ''Message'', ''Entity'', ''MENTIONS'', ''HAS_MESSAGE'', ''REFERS_TO'']"

definition surreal_clear_all_data :: "'w surreal_api \<Rightarrow> (unit, surreal_adapter \<times> 'w) io" where
  "surreal_clear_all_data api =
     bind_io get_self (\<lambda>a.
       case client a of
         None \<Rightarrow> raise_io surreal_not_connected
       | Some h \<Rightarrow>
           each_io (\<lambda>table. on_world (client_query api h (''REMOVE TABLE '' @ table) None))
             surreal_tables)"

definition surreal_schema_queries :: "string list" where
  "surreal_schema_queries =
     [''DEFINE TABLE Episode SCHEMAFULL'',
      ''DEFINE TABLE Message SCHEMAFULL'',
      ''DEFINE TABLE Entity SCHEMAFULL'',
      ''DEFINE TABLE MENTIONS SCHEMAFULL'',
      ''DEFINE TABLE HAS_MESSAGE SCHEMAFULL'',
      ''DEFINE TABLE REFERS_TO SCHEMAFULL'',
      ''DEFINE FIELD id ON Episode TYPE string'',
      ''DEFINE FIELD created_at ON Episode TYPE datetime'',
      ''DEFINE FIELD title ON Episode TYPE string'',
      ''DEFINE FIELD summary ON Episode TYPE string'',
      ''DEFINE FIELD id ON Message TYPE string'',
      ''DEFINE FIELD timestamp ON Message TYPE datetime'',
      ''DEFINE FIELD role ON Message TYPE string'',
      ''DEFINE FIELD content ON Message TYPE string'',
      ''DEFINE FIELD id ON Entity TYPE string'',
      ''DEFINE FIELD type ON Entity TYPE string'',
      ''DEFINE FIELD name ON Entity TYPE string'',
      ''DEFINE FIELD properties ON Entity TYPE object'',
      ''DEFINE INDEX episode_id ON Episode FIELDS id UNIQUE'',
      ''DEFINE INDEX episode_created_at ON Episode FIELDS created_at'',
      ''DEFINE INDEX message_id ON Message FIELDS id UNIQUE'',
      ''DEFINE INDEX message_timestamp ON Message FIELDS timestamp'',
      ''DEFINE INDEX message_role ON Message FIELDS role'',
      ''DEFINE INDEX entity_id ON Entity FIELDS id UNIQUE'',
      ''DEFINE INDEX entity_type ON Entity FIELDS type'',
      ''DEFINE INDEX entity_name ON Entity FIELDS name'']"

text \<open>
  \<open>build_indices\<close>: with \<open>delete_existing\<close> the tables are removed first (through
  \<open>clear_all_data\<close>, on the same object); then every schema query is sent, with no
  parameter map.  Nothing is caught.
\<close>

definition surreal_build_indices ::
  "'w surreal_api \<Rightarrow> bool \<Rightarrow> (unit, surreal_adapter \<times> 'w) io" where
  "surreal_build_indices api delete_existing =
     bind_io get_self (\<lambda>a.
       case client a of
         None \<Rightarrow> raise_io surreal_not_connected
       | Some h \<Rightarrow>
           bind_io (if delete_existing then surreal_clear_all_data api else return_io ()) (\<lambda>_.
           each_io (\<lambda>query. on_world (client_query api h query None)) surreal_schema_queries))"

definition surreal_episodes_query :: string where
  "surreal_episodes_query =
     newline @ spaces 12 @ ''SELECT * FROM Episode'' @
     newline @ spaces 12 @ ''ORDER BY created_at DESC'' @
     newline @ spaces 12"

definition surreal_one_episode_query :: string where
  "surreal_one_episode_query =
     newline @ spaces 12 @ ''SELECT * FROM Episode'' @
     newline @ spaces 12 @ ''WHERE id = $episode_id'' @
     newline @ spaces 12 @ ''LIMIT 1'' @
     newline @ spaces 12"

text \<open>
  Unwrapping the envelope.  \<open>result[0].get('result', [])\<close> needs \<open>result[0]\<close> to be a
  dictionary; on any other value the attribute lookup raises.  The key's value is
  returned as it is, whatever it is.
\<close>

fun type_name :: "pyval \<Rightarrow> string" where
  "type_name PNone = ''NoneType''"
| "type_name (PBool b) = ''bool''"
| "type_name (PInt i) = ''int''"
| "type_name (PStr s) = ''str''"
| "type_name (PList xs) = ''list''"
| "type_name (PDict d) = ''dict''"

definition quoted :: "string \<Rightarrow> string" where
  "quoted s = [CHR 0x27] @ s @ [CHR 0x27]"

fun get_result :: "pyval \<Rightarrow> exn + pyval" where
  "get_result (PDict d) = Inr (case map_of d ''result'' of None \<Rightarrow> PList [] | Some v \<Rightarrow> v)"
| "get_result v =
     Inl (Exn AttributeError
            (quoted (type_name v) @ '' object has no attribute '' @ quoted ''get''))"

text \<open>
  \<open>if result and isinstance(result, list) and len(result) > 0\<close> holds of a non-empty
  list and of nothing else.
\<close>

fun unwrap_episodes :: "pyval \<Rightarrow> exn + pyval" where
  "unwrap_episodes (PList (first # rest)) = get_result first"
| "unwrap_episodes result = Inr (PList [])"

definition lift_io :: "exn + 'a \<Rightarrow> ('a, 's) io" where
  "lift_io r = (\<lambda>s. (r, s))"

definition surreal_get_episodes :: "'w surreal_api \<Rightarrow> (pyval, surreal_adapter \<times> 'w) io" where
  "surreal_get_episodes api =
     bind_io get_self (\<lambda>a.
       case client a of
         None \<Rightarrow> raise_io surreal_not_connected
       | Some h \<Rightarrow>
           bind_io (on_world (client_query api h surreal_episodes_query None)) (\<lambda>result.
           lift_io (unwrap_episodes result)))"

text \<open>
  \<open>if episodes and len(episodes) > 0: return episodes[0]\<close>, falling through to
  \<open>return None\<close>.  A truthy number has no \<open>len\<close>; a non-empty dictionary (its keys are
  strings) has no key \<open>0\<close>; a non-empty string has a first character.
\<close>

fun first_item :: "pyval \<Rightarrow> exn + pyval" where
  "first_item PNone = Inr PNone"
| "first_item (PBool b) =
     (if b then Inl (Exn TypeError (''object of type '' @ quoted ''bool'' @ '' has no len()''))
      else Inr PNone)"
| "first_item (PInt i) =
     (if i \<noteq> 0 then Inl (Exn TypeError (''object of type '' @ quoted ''int'' @ '' has no len()''))
      else Inr PNone)"
| "first_item (PStr []) = Inr PNone"
| "first_item (PStr (c # cs)) = Inr (PStr [c])"
| "first_item (PList []) = Inr PNone"
| "first_item (PList (episode # episodes)) = Inr episode"
| "first_item (PDict []) = Inr PNone"
| "first_item (PDict (kv # kvs)) = Inl (Exn KeyError ''0'')"

fun unwrap_one_episode :: "pyval \<Rightarrow> exn + pyval" where
  "unwrap_one_episode (PList (first # rest)) =
     (case get_result first of Inl e \<Rightarrow> Inl e | Inr episodes \<Rightarrow> first_item episodes)"
| "unwrap_one_episode result = Inr PNone"

definition surreal_get_one_episode ::
  "'w surreal_api \<Rightarrow> string \<Rightarrow> (pyval, surreal_adapter \<times> 'w) io" where
  "surreal_get_one_episode api episode_id =
     bind_io get_self (\<lambda>a.
       case client a of
         None \<Rightarrow> raise_io surreal_not_connected
       | Some h \<Rightarrow>
           bind_io (on_world (client_query api h surreal_one_episode_query
                                (Some [(''episode_id'', PStr episode_id)]))) (\<lambda>result.
           lift_io (unwrap_one_episode result)))"

section \<open>Reading the schema statements\<close>

text \<open>
  The provisioning statements are fixed strings.  To compare what the two adapters
  provision, each statement is read as a declaration, and \<open>cypher_text\<close> and
  \<open>surql_text\<close> give the text back: the lists of declarations below produce exactly
  the strings of the source (lemmas \<open>neo4j_schema_statements_read\<close> and
  \<open>surreal_schema_queries_read\<close>).
\<close>

datatype cypher_ddl =
    CreateUnique string string
  | CreateNotNull string string
  | CreateIndex string string

fun cypher_text :: "cypher_ddl \<Rightarrow> string" where
  "cypher_text (CreateUnique label field) =
     ''CREATE CONSTRAINT IF NOT EXISTS FOR (n:'' @ label @ '') REQUIRE n.'' @ field @ '' IS UNIQUE''"
| "cypher_text (CreateNotNull label field) =
     ''CREATE CONSTRAINT IF NOT EXISTS FOR (n:'' @ label @ '') REQUIRE n.'' @ field @ '' IS NOT NULL''"
| "cypher_text (CreateIndex label field) =
     ''CREATE INDEX IF NOT EXISTS FOR (n:'' @ label @ '') ON (n.'' @ field @ '')''"

definition neo4j_schema_ddl :: "cypher_ddl list" where
  "neo4j_schema_ddl =
     [CreateUnique ''Episode'' ''id'',
      CreateUnique ''Message'' ''id'',
      CreateUnique ''Entity'' ''id'',
      CreateNotNull ''Message'' ''timestamp'',
      CreateNotNull ''Episode'' ''created_at'',
      CreateIndex ''Episode'' ''created_at'',
      CreateIndex ''Message'' ''timestamp'',
      CreateIndex ''Message'' ''role'',
      CreateIndex ''Entity'' ''type'',
      CreateIndex ''Entity'' ''name'']"

text \<open>\<open>DefineField field table type\<close>; \<open>DefineIndex name table field unique\<close>.\<close>

datatype surql_ddl =
    DefineTable string
  | DefineField string string string
  | DefineIndex string string string bool

fun surql_text :: "surql_ddl \<Rightarrow> string" where
  "surql_text (DefineTable table) = ''DEFINE TABLE '' @ table @ '' SCHEMAFULL''"
| "surql_text (DefineField field table ty) =
     ''DEFINE FIELD '' @ field @ '' ON '' @ table @ '' TYPE '' @ ty"
| "surql_text (DefineIndex name table field unique) =
     ''DEFINE INDEX '' @ name @ '' ON '' @ table @ '' FIELDS '' @ field @
       (if unique then '' UNIQUE'' else [])"

fun surql_table :: "surql_ddl \<Rightarrow> string" where
  "surql_table (DefineTable table) = table"
| "surql_table (DefineField field table ty) = table"
| "surql_table (DefineIndex name table field unique) = table"

definition surreal_schema_ddl :: "surql_ddl list" where
  "surreal_schema_ddl =
     [DefineTable ''Episode'',
      DefineTable ''Message'',
      DefineTable ''Entity'',
      DefineTable ''MENTIONS'',
      DefineTable ''HAS_MESSAGE'',
      DefineTable ''REFERS_TO'',
      DefineField ''id'' ''Episode'' ''string'',
      DefineField ''created_at'' ''Episode'' ''datetime'',
      DefineField ''title'' ''Episode'' ''string'',
      DefineField ''summary'' ''Episode'' ''string'',
      DefineField ''id'' ''Message'' ''string'',
      DefineField ''timestamp'' ''Message'' ''datetime'',
      DefineField ''role'' ''Message'' ''string'',
      DefineField ''content'' ''Message'' ''string'',
      DefineField ''id'' ''Entity'' ''string'',
      DefineField ''type'' ''Entity'' ''string'',
      DefineField ''name'' ''Entity'' ''string'',
      DefineField ''properties'' ''Entity'' ''object'',
      DefineIndex ''episode_id'' ''Episode'' ''id'' True,
      DefineIndex ''episode_created_at'' ''Episode'' ''created_at'' False,
      DefineIndex ''message_id'' ''Message'' ''id'' True,
      DefineIndex ''message_timestamp'' ''Message'' ''timestamp'' False,
      DefineIndex ''message_role'' ''Message'' ''role'' False,
      DefineIndex ''entity_id'' ''Entity'' ''id'' True,
      DefineIndex ''entity_type'' ''Entity'' ''type'' False,
      DefineIndex ''entity_name'' ''Entity'' ''name'' False]"

text \<open>
  The schema objects the specification speaks of, on a label or table and a field.
  A Cypher statement declares one.  A \<open>DEFINE INDEX\<close> declares a uniqueness
  constraint or a secondary index; a \<open>DEFINE TABLE\<close> declares none of the three.
  Whether a typed \<open>DEFINE FIELD\<close> counts as a not-null requirement is a matter of
  the server's reading of \<open>TYPE\<close>, so it is a parameter: the comparison below is made
  under both readings.
\<close>

datatype schema_object =
    UniqueOn string string
  | NotNullOn string string
  | IndexOn string string

fun cypher_object :: "cypher_ddl \<Rightarrow> schema_object" where
  "cypher_object (CreateUnique label field) = UniqueOn label field"
| "cypher_object (CreateNotNull label field) = NotNullOn label field"
| "cypher_object (CreateIndex label field) = IndexOn label field"

fun surql_objects :: "bool \<Rightarrow> surql_ddl \<Rightarrow> schema_object list" where
  "surql_objects typed_is_required (DefineTable table) = []"
| "surql_objects typed_is_required (DefineField field table ty) =
     (if typed_is_required then [NotNullOn table field] else [])"
| "surql_objects typed_is_required (DefineIndex name table field unique) =
     [if unique then UniqueOn table field else IndexOn table field]"

definition neo4j_schema_objects :: "schema_object set" where
  "neo4j_schema_objects = set (map cypher_object neo4j_schema_ddl)"

definition surreal_schema_objects :: "bool \<Rightarrow> schema_object set" where
  "surreal_schema_objects typed_is_required =
     set (concat (map (surql_objects typed_is_required) surreal_schema_ddl))"

fun is_unique :: "schema_object \<Rightarrow> bool" where
  "is_unique (UniqueOn t f) = True"
| "is_unique other = False"

fun is_not_null :: "schema_object \<Rightarrow> bool" where
  "is_not_null (NotNullOn t f) = True"
| "is_not_null other = False"

fun is_index :: "schema_object \<Rightarrow> bool" where
  "is_index (IndexOn t f) = True"
| "is_index other = False"

section \<open>What is assumed of a server\<close>







text \<open>
  The rows a read of the Neo4j adapter works on: the session is opened, the query run,
  the rows fetched and the session left.
\<close>

definition neo4j_fetch ::
  "('w, 'c) neo4j_api \<Rightarrow> handle \<Rightarrow> string \<Rightarrow> pydict option \<Rightarrow> (cell list list, 'w) io" where
  "neo4j_fetch api h query params =
     with_session api h (\<lambda>s. bind_io (session_run api s query params) (result_values api))"

text \<open>
  Absence in the envelope of the multi-model client: the envelope is empty, or its
  first outcome has no \<open>result\<close> key, or the key holds an empty array.
\<close>

fun absent :: "pyval \<Rightarrow> bool" where
  "absent (PList []) = True"
| "absent (PList (PDict d # rest)) =
     (map_of d ''result'' = None \<or> map_of d ''result'' = Some (PList []))"
| "absent other = False"

section \<open>Servers in memory\<close>

text \<open>
  Small servers on which the theorems are instantiated.  The link says how the
  handshake goes: the server answers, cannot be reached, or refuses the credentials.
  A Neo4j result handle is the list of its rows.  The Neo4j server takes every guarded
  \<open>CREATE\<close> as create-if-absent; the multi-model server takes every \<open>DEFINE\<close> as
  define-or-replace.  A second multi-model server, the strict one, refuses the
  \<open>DEFINE\<close> of what is already defined and the \<open>REMOVE TABLE\<close> of a table it does
  not have.
\<close>

datatype link = Healthy | Unreachable | Unauthorized

definition starts_with :: "string \<Rightarrow> string \<Rightarrow> bool" where
  "starts_with p q = (take (length p) q = p)"

record neo4j_server =
  srv_nodes :: "(string \<times> pydict) list"
  srv_schema :: "string list"

definition episode_rows :: "neo4j_server \<Rightarrow> cell list list" where
  "episode_rows w = map (\<lambda>n. [Node (snd n)]) (filter (\<lambda>n. fst n = ''Episode'') (srv_nodes w))"

definition has_id :: "pydict option \<Rightarrow> pydict \<Rightarrow> bool" where
  "has_id params props =
     (case params of
        None \<Rightarrow> False
      | Some d \<Rightarrow> (case map_of d ''episode_id'' of
                    None \<Rightarrow> False
                  | Some v \<Rightarrow> map_of props ''id'' = Some v))"

definition mem_run :: "link \<Rightarrow> handle \<Rightarrow> string \<Rightarrow> pydict option \<Rightarrow> (cell list list, neo4j_server) io" where
  "mem_run l s q params =
     (\<lambda>w. case l of
        Unreachable \<Rightarrow> (Inl (Exn DriverError ''Unable to retrieve routing information''), w)
      | Unauthorized \<Rightarrow>
          (Inl (Exn Neo4jError ''The client is unauthorized due to authentication failure.''), w)
      | Healthy \<Rightarrow>
          if starts_with ''CREATE CONSTRAINT IF NOT EXISTS '' q \<or>
             starts_with ''CREATE INDEX IF NOT EXISTS '' q
            then (Inr [], w\<lparr>srv_schema := List.insert q (srv_schema w)\<rparr>)
          else if q = neo4j_schema_reset then (Inr [], w\<lparr>srv_schema := []\<rparr>)
          else if q = neo4j_delete_all then (Inr [], w\<lparr>srv_nodes := []\<rparr>)
          else if q = neo4j_episodes_query then (Inr (episode_rows w), w)
          else if q = neo4j_one_episode_query
            then (Inr (filter (\<lambda>r. case r of [Node props] \<Rightarrow> has_id params props | _ \<Rightarrow> False)
                         (episode_rows w)), w)
          else if q = ''RETURN 1'' then (Inr [], w)
          else (Inl (Exn Neo4jError (''Invalid input: '' @ q)), w))"

definition mem_neo4j :: "link \<Rightarrow> (neo4j_server, cell list list) neo4j_api" where
  "mem_neo4j l =
     \<lparr>driver_new = (\<lambda>uri user password.
                      if uri = [] then raise_io (Exn DriverError ''URI scheme not supported'')
                      else return_io 1),
      driver_session = (\<lambda>h. return_io 2),
      session_run = mem_run l,
      session_exit = (\<lambda>s. return_io ()),
      result_values = return_io,
      driver_close = (\<lambda>h. return_io ())\<rparr>"

record surreal_server =
  sdb_tables :: "(string \<times> pyval list) list"
  sdb_defs :: "string list"

definition table_rows :: "string \<Rightarrow> surreal_server \<Rightarrow> pyval list" where
  "table_rows table v = (case map_of (sdb_tables v) table of None \<Rightarrow> [] | Some rows \<Rightarrow> rows)"

definition ok_envelope :: "pyval \<Rightarrow> pyval" where
  "ok_envelope r = PList [PDict [(''result'', r), (''status'', PStr ''OK'')]]"

definition defs_on :: "string \<Rightarrow> string list" where
  "defs_on table = map surql_text (filter (\<lambda>d. surql_table d = table) surreal_schema_ddl)"

definition mem_query :: "link \<Rightarrow> handle \<Rightarrow> string \<Rightarrow> pydict option \<Rightarrow> (pyval, surreal_server) io" where
  "mem_query l k q params =
     (\<lambda>v. case l of
        Unreachable \<Rightarrow> (Inl (Exn BackendError ''Connection refused''), v)
      | Unauthorized \<Rightarrow> (Inl (Exn BackendError ''Not enough permissions''), v)
      | Healthy \<Rightarrow>
          if starts_with ''DEFINE '' q
            then (Inr (ok_envelope PNone), v\<lparr>sdb_defs := List.insert q (sdb_defs v)\<rparr>)
          else if q \<in> set (map (\<lambda>table. ''REMOVE TABLE '' @ table) surreal_tables)
            then (Inr (ok_envelope PNone),
                  v\<lparr>sdb_tables := filter (\<lambda>p. fst p \<noteq> drop 13 q) (sdb_tables v),
                    sdb_defs := filter (\<lambda>d. d \<notin> set (defs_on (drop 13 q))) (sdb_defs v)\<rparr>)
          else if q = surreal_episodes_query
            then (Inr (ok_envelope (PList (table_rows ''Episode'' v))), v)
          else if q = surreal_one_episode_query
            then (Inr (ok_envelope (PList (take 1
                    (filter (\<lambda>r. case r of PDict props \<Rightarrow> has_id params props | _ \<Rightarrow> False)
                       (table_rows ''Episode'' v))))), v)
          else (Inl (Exn BackendError (''Parse error: '' @ q)), v))"

definition mem_signin :: "link \<Rightarrow> handle \<Rightarrow> pydict \<Rightarrow> (unit, surreal_server) io" where
  "mem_signin l k creds =
     (case l of
        Unreachable \<Rightarrow> raise_io (Exn BackendError ''Connection refused'')
      | Unauthorized \<Rightarrow> raise_io (Exn BackendError ''There was a problem with authentication'')
      | Healthy \<Rightarrow> return_io ())"

definition mem_surreal :: "link \<Rightarrow> surreal_server surreal_api" where
  "mem_surreal l =
     \<lparr>surreal_new = (\<lambda>uri. if uri = [] then raise_io (Exn ValueError ''Invalid URL'')
                            else return_io 1),
      client_signin = mem_signin l,
      client_select = (\<lambda>k ns db. return_io ()),
      client_query = mem_query l,
      client_close = (\<lambda>k. return_io ())\<rparr>"



definition episode_1 :: pydict where
  "episode_1 =
     [(''id'', PStr ''ep-1''), (''created_at'', PStr ''2024-01-01T00:00:00Z''),
      (''title'', PStr ''t''), (''summary'', PStr ''s'')]"

definition neo4j_world :: neo4j_server where
  "neo4j_world = \<lparr>srv_nodes = [(''Episode'', episode_1), (''Entity'', [(''id'', PStr ''e-1'')])],
                  srv_schema = []\<rparr>"

definition surreal_world :: surreal_server where
  "surreal_world = \<lparr>sdb_tables = [(''Episode'', [PDict episode_1]), (''Entity'', [])],
                    sdb_defs = []\<rparr>"

section \<open>Unfolding the effects\<close>

lemmas io_defs = return_io_def raise_io_def bind_io_def try_except_def on_world_def
  get_self_def set_self_def lift_io_def

lemmas neo4j_op_defs = neo4j_execute_query_def neo4j_get_driver_def neo4j_get_session_def
  neo4j_build_indices_def neo4j_clear_all_data_def neo4j_get_episodes_def
  neo4j_get_one_episode_def

lemmas surreal_op_defs = surreal_execute_query_def surreal_get_driver_def
  surreal_get_session_def surreal_build_indices_def surreal_clear_all_data_def
  surreal_get_episodes_def surreal_get_one_episode_def

text \<open>The two servers in memory, evaluated.\<close>

lemmas mem_neo4j_defs = mem_neo4j_def mem_run_def starts_with_def episode_rows_def has_id_def
  neo4j_schema_statements_def neo4j_schema_reset_def neo4j_delete_all_def
  neo4j_episodes_query_def neo4j_one_episode_query_def newline_def

lemmas mem_surreal_defs = mem_surreal_def mem_query_def mem_signin_def starts_with_def
  table_rows_def
  has_id_def ok_envelope_def surreal_schema_queries_def surreal_tables_def
  surreal_episodes_query_def surreal_one_episode_query_def newline_def

section \<open>Operations on a disconnected adapter\<close>

text \<open>
  Claim C1.  On either adapter, each of \<open>execute_query\<close>, \<open>get_driver\<close>,
  \<open>get_session\<close>, \<open>build_indices\<close>, \<open>clear_all_data\<close>, \<open>get_episodes\<close> and
  \<open>get_one_episode\<close>, called while the handle is \<open>None\<close>, raises the
  \<open>ConnectionError\<close> "Not connected to ...", and neither the adapter nor the world
  outside changes: no driver call is made, so no connection is attempted.
\<close>

theorem disconnected_operations_fail:
  assumes "driver a = None" and "client b = None"
  shows
    "neo4j_execute_query napi q ps (a, w) =
       (Inl (Exn ConnectionError ''Not connected to Neo4j''), (a, w)) \<and>
     neo4j_get_driver napi (a, w) =
       (Inl (Exn ConnectionError ''Not connected to Neo4j''), (a, w)) \<and>
     neo4j_get_session napi (a, w) =
       (Inl (Exn ConnectionError ''Not connected to Neo4j''), (a, w)) \<and>
     neo4j_build_indices napi del (a, w) =
       (Inl (Exn ConnectionError ''Not connected to Neo4j''), (a, w)) \<and>
     neo4j_clear_all_data napi (a, w) =
       (Inl (Exn ConnectionError ''Not connected to Neo4j''), (a, w)) \<and>
     neo4j_get_episodes napi (a, w) =
       (Inl (Exn ConnectionError ''Not connected to Neo4j''), (a, w)) \<and>
     neo4j_get_one_episode napi eid (a, w) =
       (Inl (Exn ConnectionError ''Not connected to Neo4j''), (a, w)) \<and>
     surreal_execute_query sapi q ps (b, v) =
       (Inl (Exn ConnectionError ''Not connected to SurrealDB''), (b, v)) \<and>
     surreal_get_driver sapi (b, v) =
       (Inl (Exn ConnectionError ''Not connected to SurrealDB''), (b, v)) \<and>
     surreal_get_session sapi (b, v) =
       (Inl (Exn ConnectionError ''Not connected to SurrealDB''), (b, v)) \<and>
     surreal_build_indices sapi del (b, v) =
       (Inl (Exn ConnectionError ''Not connected to SurrealDB''), (b, v)) \<and>
     surreal_clear_all_data sapi (b, v) =
       (Inl (Exn ConnectionError ''Not connected to SurrealDB''), (b, v)) \<and>
     surreal_get_episodes sapi (b, v) =
       (Inl (Exn ConnectionError ''Not connected to SurrealDB''), (b, v)) \<and>
     surreal_get_one_episode sapi eid (b, v) =
       (Inl (Exn ConnectionError ''Not connected to SurrealDB''), (b, v))"
  using assms
  by (simp add: neo4j_op_defs surreal_op_defs io_defs neo4j_not_connected_def
      surreal_not_connected_def)

theorem disconnected_operations_fail_witness:
  "neo4j_execute_query (mem_neo4j Healthy) ''RETURN 1'' None (Neo4jAdapter_init, neo4j_world) =
     (Inl (Exn ConnectionError ''Not connected to Neo4j''), (Neo4jAdapter_init, neo4j_world)) \<and>
   neo4j_build_indices (mem_neo4j Healthy) False (Neo4jAdapter_init, neo4j_world) =
     (Inl (Exn ConnectionError ''Not connected to Neo4j''), (Neo4jAdapter_init, neo4j_world)) \<and>
   surreal_get_episodes (mem_surreal Healthy) (SurrealDBAdapter_init, surreal_world) =
     (Inl (Exn ConnectionError ''Not connected to SurrealDB''),
      (SurrealDBAdapter_init, surreal_world)) \<and>
   surreal_get_driver (mem_surreal Healthy) (SurrealDBAdapter_init, surreal_world) =
     (Inl (Exn ConnectionError ''Not connected to SurrealDB''),
      (SurrealDBAdapter_init, surreal_world))"
  using disconnected_operations_fail [where a = Neo4jAdapter_init and b = SurrealDBAdapter_init
      and napi = "mem_neo4j Healthy" and sapi = "mem_surreal Healthy" and q = "''RETURN 1''"
      and ps = None and w = neo4j_world and v = surreal_world and del = False]
  by (simp add: Neo4jAdapter_init_def SurrealDBAdapter_init_def)

section \<open>The factory\<close>

lemma get_db_type_members:
  "get_db_type s = ''neo4j'' \<or> get_db_type s = ''surrealdb''"
  by (simp add: get_db_type_def DatabaseType_NEO4J_def DatabaseType_SURREALDB_def)

text \<open>
  Claim C3, as stated, fails: the factory compares the tag with \<open>"neo4j"\<close> and
  \<open>"surrealdb"\<close> as they are, so a tag in another letter case is refused like any
  unknown tag.
\<close>

theorem factory_letter_case_counterexample:
  "create_db_adapter ''NEO4J'' = Inl (Exn ValueError ''Unsupported database type: NEO4J'') \<and>
   get_adapter_class ''NEO4J'' = Inl (Exn ValueError ''Unsupported database type: NEO4J'') \<and>
   create_db_adapter ''SurrealDB'' =
     Inl (Exn ValueError ''Unsupported database type: SurrealDB'') \<and>
   get_adapter_class ''SurrealDB'' =
     Inl (Exn ValueError ''Unsupported database type: SurrealDB'')"
  by (simp add: create_db_adapter_def get_adapter_class_def DatabaseType_NEO4J_def
      DatabaseType_SURREALDB_def)

text \<open>
  Claim C3, amended.  Given exactly the tag \<open>"neo4j"\<close> or exactly the tag
  \<open>"surrealdb"\<close>, \<open>create_db_adapter\<close> returns a new adapter of that backend with no
  handle and \<open>get_adapter_class\<close> returns its class; for every other tag, other
  letter cases included, both raise \<open>ValueError\<close> "Unsupported database type: tag".
\<close>

theorem factory_exact_tags:
  "(t = ''neo4j'' \<longrightarrow>
      create_db_adapter t = Inr (Neo4jAdapterObj \<lparr>driver = None\<rparr>) \<and>
      get_adapter_class t = Inr Neo4jAdapterClass) \<and>
   (t = ''surrealdb'' \<longrightarrow>
      create_db_adapter t =
        Inr (SurrealDBAdapterObj \<lparr>client = None, namespace = None, database = None\<rparr>) \<and>
      get_adapter_class t = Inr SurrealDBAdapterClass) \<and>
   (t \<noteq> ''neo4j'' \<and> t \<noteq> ''surrealdb'' \<longrightarrow>
      create_db_adapter t = Inl (Exn ValueError (''Unsupported database type: '' @ t)) \<and>
      get_adapter_class t = Inl (Exn ValueError (''Unsupported database type: '' @ t)))"
  by (simp add: create_db_adapter_def get_adapter_class_def DatabaseType_NEO4J_def
      DatabaseType_SURREALDB_def Neo4jAdapter_init_def SurrealDBAdapter_init_def)

theorem factory_exact_tags_witness:
  "create_db_adapter ''mongo'' = Inl (Exn ValueError ''Unsupported database type: mongo'') \<and>
   get_adapter_class ''mongo'' = Inl (Exn ValueError ''Unsupported database type: mongo'') \<and>
   create_db_adapter ''neo4j'' = Inr (Neo4jAdapterObj \<lparr>driver = None\<rparr>) \<and>
   get_adapter_class ''surrealdb'' = Inr SurrealDBAdapterClass"
  using factory_exact_tags [where t = "''mongo''"] factory_exact_tags [where t = "''neo4j''"]
    factory_exact_tags [where t = "''surrealdb''"]
  by simp

section \<open>Closing\<close>

text \<open>
  Claim C9.  On either adapter, \<open>close\<close> with no handle returns without raising and
  changes neither the adapter nor the world; and when a \<open>close\<close> returns, the handle
  is \<open>None\<close> and a second \<open>close\<close> returns again, changing nothing.
\<close>

theorem close_idempotent:
  "(driver a = None \<longrightarrow> neo4j_close napi (a, w) = (Inr (), (a, w))) \<and>
   (neo4j_close napi (a, w) = (Inr (), (a', w')) \<longrightarrow>
      driver a' = None \<and> neo4j_close napi (a', w') = (Inr (), (a', w'))) \<and>
   (client b = None \<longrightarrow> surreal_close sapi (b, v) = (Inr (), (b, v))) \<and>
   (surreal_close sapi (b, v) = (Inr (), (b', v')) \<longrightarrow>
      client b' = None \<and> surreal_close sapi (b', v') = (Inr (), (b', v')))"
  by (auto simp add: neo4j_close_def surreal_close_def io_defs
      split: option.splits prod.splits sum.splits)

theorem close_idempotent_witness:
  "neo4j_close (mem_neo4j Healthy) (\<lparr>driver = Some 1\<rparr>, neo4j_world) =
     (Inr (), (\<lparr>driver = None\<rparr>, neo4j_world)) \<and>
   neo4j_close (mem_neo4j Healthy) (\<lparr>driver = None\<rparr>, neo4j_world) =
     (Inr (), (\<lparr>driver = None\<rparr>, neo4j_world)) \<and>
   surreal_close (mem_surreal Healthy)
       (\<lparr>client = Some 1, namespace = Some ''graphiti'', database = Some ''graphiti''\<rparr>,
        surreal_world) =
     (Inr (), (\<lparr>client = None, namespace = Some ''graphiti'', database = Some ''graphiti''\<rparr>,
        surreal_world)) \<and>
   surreal_close (mem_surreal Healthy)
       (\<lparr>client = None, namespace = Some ''graphiti'', database = Some ''graphiti''\<rparr>,
        surreal_world) =
     (Inr (), (\<lparr>client = None, namespace = Some ''graphiti'', database = Some ''graphiti''\<rparr>,
        surreal_world))"
proof -
  have n: "neo4j_close (mem_neo4j Healthy) (\<lparr>driver = Some 1\<rparr>, neo4j_world) =
     (Inr (), (\<lparr>driver = None\<rparr>, neo4j_world))"
    by (simp add: neo4j_close_def mem_neo4j_def io_defs)
  have s: "surreal_close (mem_surreal Healthy)
       (\<lparr>client = Some 1, namespace = Some ''graphiti'', database = Some ''graphiti''\<rparr>,
        surreal_world) =
     (Inr (), (\<lparr>client = None, namespace = Some ''graphiti'', database = Some ''graphiti''\<rparr>,
        surreal_world))"
    by (simp add: surreal_close_def mem_surreal_def io_defs)
  from n s show ?thesis
    using close_idempotent [where napi = "mem_neo4j Healthy" and a = "\<lparr>driver = Some 1\<rparr>"
        and w = neo4j_world and a' = "\<lparr>driver = None\<rparr>" and w' = neo4j_world
        and sapi = "mem_surreal Healthy"
        and b = "\<lparr>client = Some 1, namespace = Some ''graphiti'', database = Some ''graphiti''\<rparr>"
        and v = surreal_world
        and b' = "\<lparr>client = None, namespace = Some ''graphiti'', database = Some ''graphiti''\<rparr>"
        and v' = surreal_world]
    by simp
qed

section \<open>The parameter map of a query\<close>

text \<open>
  Claim C10.  On either adapter, \<open>execute_query\<close> with the parameters left out (or
  \<open>None\<close>) is \<open>execute_query\<close> with the empty dictionary: as functions of the adapter
  and the world they are equal, in value, in exception and in effect.
\<close>

theorem execute_query_none_is_empty:
  "neo4j_execute_query napi q None = neo4j_execute_query napi q (Some []) \<and>
   surreal_execute_query sapi q None = surreal_execute_query sapi q (Some [])"
proof -
  have e: "params_or_empty None = params_or_empty (Some [])"
    by (simp add: params_or_empty_def)
  show ?thesis
    unfolding neo4j_execute_query_def surreal_execute_query_def e by simp
qed

section \<open>The provisioned schema objects\<close>

lemma neo4j_schema_statements_read: "map cypher_text neo4j_schema_ddl = neo4j_schema_statements"
  by (simp add: neo4j_schema_ddl_def neo4j_schema_statements_def)

lemma surreal_schema_queries_read: "map surql_text surreal_schema_ddl = surreal_schema_queries"
  by (simp add: surreal_schema_ddl_def surreal_schema_queries_def)

lemma filter_set: "{x \<in> set xs. P x} = set (filter P xs)"
  by auto

lemma neo4j_unique:
  "{x \<in> neo4j_schema_objects. is_unique x} =
     {UniqueOn ''Episode'' ''id'', UniqueOn ''Message'' ''id'', UniqueOn ''Entity'' ''id''}"
  unfolding neo4j_schema_objects_def filter_set
  by (simp add: neo4j_schema_ddl_def)

lemma neo4j_index:
  "{x \<in> neo4j_schema_objects. is_index x} =
     {IndexOn ''Episode'' ''created_at'', IndexOn ''Message'' ''timestamp'',
      IndexOn ''Message'' ''role'', IndexOn ''Entity'' ''type'', IndexOn ''Entity'' ''name''}"
  unfolding neo4j_schema_objects_def filter_set
  by (simp add: neo4j_schema_ddl_def)

lemma neo4j_not_null:
  "{x \<in> neo4j_schema_objects. is_not_null x} =
     {NotNullOn ''Message'' ''timestamp'', NotNullOn ''Episode'' ''created_at''}"
  unfolding neo4j_schema_objects_def filter_set
  by (simp add: neo4j_schema_ddl_def)

lemma surreal_unique:
  "{x \<in> surreal_schema_objects typed. is_unique x} =
     {UniqueOn ''Episode'' ''id'', UniqueOn ''Message'' ''id'', UniqueOn ''Entity'' ''id''}"
  unfolding surreal_schema_objects_def filter_set
  by (simp add: surreal_schema_ddl_def)

lemma surreal_index:
  "{x \<in> surreal_schema_objects typed. is_index x} =
     {IndexOn ''Episode'' ''created_at'', IndexOn ''Message'' ''timestamp'',
      IndexOn ''Message'' ''role'', IndexOn ''Entity'' ''type'', IndexOn ''Entity'' ''name''}"
  unfolding surreal_schema_objects_def filter_set
  by (simp add: surreal_schema_ddl_def)

lemma surreal_not_null_untyped:
  "{x \<in> surreal_schema_objects False. is_not_null x} = {}"
  unfolding surreal_schema_objects_def filter_set
  by (simp add: surreal_schema_ddl_def)

lemma surreal_not_null_typed:
  "{x \<in> surreal_schema_objects True. is_not_null x} =
     {NotNullOn ''Episode'' ''id'', NotNullOn ''Episode'' ''created_at'',
      NotNullOn ''Episode'' ''title'', NotNullOn ''Episode'' ''summary'',
      NotNullOn ''Message'' ''id'', NotNullOn ''Message'' ''timestamp'',
      NotNullOn ''Message'' ''role'', NotNullOn ''Message'' ''content'',
      NotNullOn ''Entity'' ''id'', NotNullOn ''Entity'' ''type'',
      NotNullOn ''Entity'' ''name'', NotNullOn ''Entity'' ''properties''}"
  unfolding surreal_schema_objects_def filter_set
  by (simp add: surreal_schema_ddl_def)


text \<open>
  Claim C4, as stated, fails: the two adapters do not provision the same set of schema
  objects.  Neo4j gets an explicit not-null constraint on \<open>Message.timestamp\<close>; the
  multi-model adapter sends no not-null statement at all.  Read the other way, with
  every typed field declaration counted as a not-null requirement, the multi-model
  adapter requires \<open>Episode.title\<close>, which Neo4j does not.
\<close>

theorem schema_objects_differ_counterexample:
  "neo4j_schema_objects \<noteq> surreal_schema_objects False \<and>
   neo4j_schema_objects \<noteq> surreal_schema_objects True"
proof -
  have 1: "NotNullOn ''Message'' ''timestamp'' \<in> neo4j_schema_objects"
    by (simp add: neo4j_schema_objects_def neo4j_schema_ddl_def)
  have 2: "NotNullOn ''Message'' ''timestamp'' \<notin> surreal_schema_objects False"
    by (simp add: surreal_schema_objects_def surreal_schema_ddl_def)
  have 3: "NotNullOn ''Episode'' ''title'' \<in> surreal_schema_objects True"
    by (simp add: surreal_schema_objects_def surreal_schema_ddl_def)
  have 4: "NotNullOn ''Episode'' ''title'' \<notin> neo4j_schema_objects"
    by (simp add: neo4j_schema_objects_def neo4j_schema_ddl_def)
  from 1 2 have a: "neo4j_schema_objects \<noteq> surreal_schema_objects False"
    by blast
  from 3 4 have b: "neo4j_schema_objects \<noteq> surreal_schema_objects True"
    by blast
  from a b show ?thesis by simp
qed

text \<open>
  Claim C4, amended.  Both adapters provision the same uniqueness constraints (on
  \<open>id\<close> of Episode, Message and Entity) and the same secondary indices (on
  \<open>Episode.created_at\<close>, \<open>Message.timestamp\<close>, \<open>Message.role\<close>, \<open>Entity.type\<close>
  and \<open>Entity.name\<close>).  The Neo4j adapter adds not-null constraints on exactly
  \<open>Message.timestamp\<close> and \<open>Episode.created_at\<close>.  The multi-model adapter sends
  no not-null statement; it declares a typed field for each of the twelve attributes
  instead, those two among them.  The declarations read here are the statements of
  the source, text for text.
\<close>

theorem schema_objects_shared:
  "{x \<in> neo4j_schema_objects. is_unique x} =
     {UniqueOn ''Episode'' ''id'', UniqueOn ''Message'' ''id'', UniqueOn ''Entity'' ''id''} \<and>
   {x \<in> surreal_schema_objects typed. is_unique x} =
     {UniqueOn ''Episode'' ''id'', UniqueOn ''Message'' ''id'', UniqueOn ''Entity'' ''id''} \<and>
   {x \<in> neo4j_schema_objects. is_index x} =
     {IndexOn ''Episode'' ''created_at'', IndexOn ''Message'' ''timestamp'',
      IndexOn ''Message'' ''role'', IndexOn ''Entity'' ''type'', IndexOn ''Entity'' ''name''} \<and>
   {x \<in> surreal_schema_objects typed. is_index x} =
     {IndexOn ''Episode'' ''created_at'', IndexOn ''Message'' ''timestamp'',
      IndexOn ''Message'' ''role'', IndexOn ''Entity'' ''type'', IndexOn ''Entity'' ''name''} \<and>
   {x \<in> neo4j_schema_objects. is_not_null x} =
     {NotNullOn ''Message'' ''timestamp'', NotNullOn ''Episode'' ''created_at''} \<and>
   {x \<in> surreal_schema_objects False. is_not_null x} = {} \<and>
   {x \<in> surreal_schema_objects True. is_not_null x} =
     {NotNullOn ''Episode'' ''id'', NotNullOn ''Episode'' ''created_at'',
      NotNullOn ''Episode'' ''title'', NotNullOn ''Episode'' ''summary'',
      NotNullOn ''Message'' ''id'', NotNullOn ''Message'' ''timestamp'',
      NotNullOn ''Message'' ''role'', NotNullOn ''Message'' ''content'',
      NotNullOn ''Entity'' ''id'', NotNullOn ''Entity'' ''type'',
      NotNullOn ''Entity'' ''name'', NotNullOn ''Entity'' ''properties''} \<and>
   map cypher_text neo4j_schema_ddl = neo4j_schema_statements \<and>
   map surql_text surreal_schema_ddl = surreal_schema_queries"
  unfolding neo4j_unique surreal_unique neo4j_index surreal_index neo4j_not_null
    surreal_not_null_untyped surreal_not_null_typed neo4j_schema_statements_read
    surreal_schema_queries_read
  by simp

theorem schema_objects_shared_witness:
  "{x \<in> surreal_schema_objects True. is_unique x} = {x \<in> neo4j_schema_objects. is_unique x} \<and>
   {x \<in> surreal_schema_objects False. is_index x} = {x \<in> neo4j_schema_objects. is_index x}"
  using schema_objects_shared [where typed = True] schema_objects_shared [where typed = False]
  by simp

section \<open>A connect that fails\<close>

text \<open>
  Claim C2 is not what the code does.  When the driver or client object has been made
  and the probe (Neo4j) or the sign-in (multi-model) then raises, \<open>connect\<close> raises,
  but the handle stored before the failure stays in the adapter: the adapter is not in
  the state with no handle, and \<open>get_driver\<close> returns the handle instead of raising
  "Not connected".  On the Neo4j adapter the exception is a \<open>ConnectionError\<close> only
  when the driver raised a \<open>DriverError\<close>; any other exception leaves \<open>connect\<close> as
  it is.
\<close>

theorem failed_connect_keeps_handle:
  assumes "driver_new napi uri user pw w = (Inr h, w1)"
    and "neo4j_probe napi h w1 = (Inl e, w2)"
    and "surreal_new sapi uri v = (Inr k, v1)"
    and "client_signin sapi k [(''username'', PStr user), (''password'', PStr pw)] v1 = (Inl e', v2)"
  shows
    "neo4j_connect napi uri user pw (a, w) =
       (Inl (if exn_cls e = DriverError
             then Exn ConnectionError (''Failed to connect to Neo4j: '' @ str_of e) else e),
        (a\<lparr>driver := Some h\<rparr>, w2)) \<and>
     neo4j_get_driver napi (a\<lparr>driver := Some h\<rparr>, w2) = (Inr h, (a\<lparr>driver := Some h\<rparr>, w2)) \<and>
     surreal_connect sapi uri user pw ns db (b, v) =
       (Inl (Exn ConnectionError
               (''Failed to connect to SurrealDB: Failed to connect to SurrealDB: '' @ str_of e')),
        (b\<lparr>namespace := Some ns, database := Some db, client := Some k\<rparr>, v2)) \<and>
     surreal_get_driver sapi (b\<lparr>namespace := Some ns, database := Some db, client := Some k\<rparr>, v2) =
       (Inr k, (b\<lparr>namespace := Some ns, database := Some db, client := Some k\<rparr>, v2))"
  using assms
  by (simp add: neo4j_connect_def neo4j_get_driver_def surreal_connect_def surreal_get_driver_def
      io_defs)

theorem failed_connect_keeps_handle_witness:
  "neo4j_connect (mem_neo4j Unreachable) ''bolt://localhost:7687'' ''neo4j'' ''pw''
       (Neo4jAdapter_init, neo4j_world) =
     (Inl (Exn ConnectionError
             ''Failed to connect to Neo4j: Unable to retrieve routing information''),
      (\<lparr>driver = Some 1\<rparr>, neo4j_world)) \<and>
   neo4j_get_driver (mem_neo4j Unreachable) (\<lparr>driver = Some 1\<rparr>, neo4j_world) =
     (Inr 1, (\<lparr>driver = Some 1\<rparr>, neo4j_world)) \<and>
   surreal_connect (mem_surreal Unauthorized) ''bolt://localhost:7687'' ''neo4j'' ''pw''
       ''graphiti'' ''graphiti'' (SurrealDBAdapter_init, surreal_world) =
     (Inl (Exn ConnectionError
             ''Failed to connect to SurrealDB: Failed to connect to SurrealDB: There was a problem with authentication''),
      (\<lparr>client = Some 1, namespace = Some ''graphiti'', database = Some ''graphiti''\<rparr>,
       surreal_world)) \<and>
   surreal_get_driver (mem_surreal Unauthorized)
       (\<lparr>client = Some 1, namespace = Some ''graphiti'', database = Some ''graphiti''\<rparr>,
        surreal_world) =
     (Inr 1, (\<lparr>client = Some 1, namespace = Some ''graphiti'', database = Some ''graphiti''\<rparr>,
       surreal_world))"
proof -
  have 1: "driver_new (mem_neo4j Unreachable) ''bolt://localhost:7687'' ''neo4j'' ''pw'' neo4j_world
             = (Inr 1, neo4j_world)"
    by (simp add: mem_neo4j_def io_defs)
  have 2: "neo4j_probe (mem_neo4j Unreachable) 1 neo4j_world =
             (Inl (Exn DriverError ''Unable to retrieve routing information''), neo4j_world)"
    by (simp add: neo4j_probe_def with_session_def mem_neo4j_def mem_run_def io_defs)
  have 3: "surreal_new (mem_surreal Unauthorized) ''bolt://localhost:7687'' surreal_world
             = (Inr 1, surreal_world)"
    by (simp add: mem_surreal_def io_defs)
  have 4: "client_signin (mem_surreal Unauthorized) 1
             [(''username'', PStr ''neo4j''), (''password'', PStr ''pw'')] surreal_world =
             (Inl (Exn BackendError ''There was a problem with authentication''), surreal_world)"
    by (simp add: mem_surreal_def mem_signin_def io_defs)
  show ?thesis
    using failed_connect_keeps_handle [OF 1 2 3 4, where a = Neo4jAdapter_init
        and b = SurrealDBAdapter_init and ns = "''graphiti''" and db = "''graphiti''"]
    by (simp add: Neo4jAdapter_init_def SurrealDBAdapter_init_def)
qed

text \<open>
  The other outcomes of \<open>connect\<close>: an exception of the probe that is no
  \<open>DriverError\<close> is not wrapped; a failure to make the driver or client object leaves
  the handle as it was; and a \<open>connect\<close> that succeeds stores the handle.
\<close>

lemma neo4j_connect_other_exception:
  assumes "driver_new napi uri user pw w = (Inr h, w1)"
    and "neo4j_probe napi h w1 = (Inl e, w2)"
    and "exn_cls e \<noteq> DriverError"
  shows "neo4j_connect napi uri user pw (a, w) = (Inl e, (a\<lparr>driver := Some h\<rparr>, w2))"
  using assms by (simp add: neo4j_connect_def io_defs)

lemma connect_without_handle:
  assumes "driver_new napi uri user pw w = (Inl e, w1)"
    and "surreal_new sapi uri v = (Inl e', v1)"
  shows "neo4j_connect napi uri user pw (a, w) =
           (Inl (if exn_cls e = DriverError
                 then Exn ConnectionError (''Failed to connect to Neo4j: '' @ str_of e) else e),
            (a, w1)) \<and>
         surreal_connect sapi uri user pw ns db (b, v) =
           (Inl (Exn ConnectionError (''Failed to connect to SurrealDB: '' @ str_of e')),
            (b\<lparr>namespace := Some ns, database := Some db\<rparr>, v1))"
  using assms by (simp add: neo4j_connect_def surreal_connect_def io_defs)

lemma connect_succeeds:
  assumes "driver_new napi uri user pw w = (Inr h, w1)"
    and "neo4j_probe napi h w1 = (Inr (), w2)"
    and "surreal_new sapi uri v = (Inr k, v1)"
    and "client_signin sapi k [(''username'', PStr user), (''password'', PStr pw)] v1 = (Inr (), v2)"
    and "client_select sapi k ns db v2 = (Inr (), v3)"
  shows "neo4j_connect napi uri user pw (a, w) = (Inr (), (a\<lparr>driver := Some h\<rparr>, w2)) \<and>
         surreal_connect sapi uri user pw ns db (b, v) =
           (Inr (), (b\<lparr>namespace := Some ns, database := Some db, client := Some k\<rparr>, v3))"
  using assms by (simp add: neo4j_connect_def surreal_connect_def io_defs)


section \<open>A query that fails\<close>

lemma neo4j_execute_query_connected:
  "driver a = Some h \<Longrightarrow>
   neo4j_execute_query napi q ps (a, w) =
     (case with_session napi h (\<lambda>s. session_run napi s q (Some (params_or_empty ps))) w of
        (Inl e, w') \<Rightarrow>
          (Inl (Exn PlainException (''Error executing Neo4j query: '' @ str_of e)), (a, w'))
      | (Inr c, w') \<Rightarrow> (Inr c, (a, w')))"
  by (simp add: neo4j_execute_query_def io_defs split: prod.splits sum.splits)

lemma surreal_execute_query_connected:
  "client b = Some k \<Longrightarrow>
   surreal_execute_query sapi q ps (b, v) =
     (case client_query sapi k q (Some (params_or_empty ps)) v of
        (Inl e, v') \<Rightarrow>
          (Inl (Exn PlainException (''Error executing SurrealDB query: '' @ str_of e)), (b, v'))
      | (Inr r, v') \<Rightarrow> (Inr r, (b, v')))"
  by (simp add: surreal_execute_query_def io_defs split: prod.splits sum.splits)

lemma with_session_run_fails:
  "driver_session napi h w = (Inr s, w1) \<Longrightarrow> body s w1 = (Inl e, w2) \<Longrightarrow>
   session_exit napi s w2 = (Inr (), w3) \<Longrightarrow> with_session napi h body w = (Inl e, w3)"
  by (simp add: with_session_def)

text \<open>
  Claim C6.  On a connected adapter, when the driver raises \<open>e\<close> inside the guarded
  block of \<open>execute_query\<close> (for Neo4j the session block as a whole, and in particular
  a \<open>run\<close> that raises in a session that opened and is left without error; for the
  multi-model client the call of \<open>query\<close>), \<open>execute_query\<close> raises the \<open>Exception\<close>
  whose message is "Error executing ... query: " followed by \<open>str(e)\<close>, the adapter
  is as it was, and \<open>get_driver\<close> still returns the handle, so the next query needs no
  reconnect.  Conversely every exception that \<open>execute_query\<close> raises on a connected
  adapter is such a wrapping of the exception the driver raised in that call.
\<close>

theorem failed_query_is_wrapped:
  "(driver a = Some h \<and>
    with_session napi h (\<lambda>s. session_run napi s q (Some (params_or_empty ps))) w = (Inl e, w') \<longrightarrow>
      neo4j_execute_query napi q ps (a, w) =
        (Inl (Exn PlainException (''Error executing Neo4j query: '' @ str_of e)), (a, w')) \<and>
      neo4j_get_driver napi (a, w') = (Inr h, (a, w'))) \<and>
   (driver a = Some h \<and> driver_session napi h w = (Inr s, w1) \<and>
    session_run napi s q (Some (params_or_empty ps)) w1 = (Inl e, w2) \<and>
    session_exit napi s w2 = (Inr (), w3) \<longrightarrow>
      neo4j_execute_query napi q ps (a, w) =
        (Inl (Exn PlainException (''Error executing Neo4j query: '' @ str_of e)), (a, w3))) \<and>
   (driver a = Some h \<and> neo4j_execute_query napi q ps (a, w) = (Inl x, st) \<longrightarrow>
      (\<exists>e w'. with_session napi h (\<lambda>s. session_run napi s q (Some (params_or_empty ps))) w =
                 (Inl e, w') \<and>
              x = Exn PlainException (''Error executing Neo4j query: '' @ str_of e) \<and>
              st = (a, w'))) \<and>
   (client b = Some k \<and> client_query sapi k q (Some (params_or_empty ps)) v = (Inl e', v') \<longrightarrow>
      surreal_execute_query sapi q ps (b, v) =
        (Inl (Exn PlainException (''Error executing SurrealDB query: '' @ str_of e')), (b, v')) \<and>
      surreal_get_driver sapi (b, v') = (Inr k, (b, v'))) \<and>
   (client b = Some k \<and> surreal_execute_query sapi q ps (b, v) = (Inl y, st') \<longrightarrow>
      (\<exists>e v'. client_query sapi k q (Some (params_or_empty ps)) v = (Inl e, v') \<and>
              y = Exn PlainException (''Error executing SurrealDB query: '' @ str_of e) \<and>
              st' = (b, v')))"
proof (intro conjI impI)
  assume "driver a = Some h \<and>
    with_session napi h (\<lambda>s. session_run napi s q (Some (params_or_empty ps))) w = (Inl e, w')"
  then show "neo4j_execute_query napi q ps (a, w) =
        (Inl (Exn PlainException (''Error executing Neo4j query: '' @ str_of e)), (a, w'))"
    by (simp add: neo4j_execute_query_connected)
next
  assume "driver a = Some h \<and>
    with_session napi h (\<lambda>s. session_run napi s q (Some (params_or_empty ps))) w = (Inl e, w')"
  then show "neo4j_get_driver napi (a, w') = (Inr h, (a, w'))"
    by (simp add: neo4j_get_driver_def io_defs)
next
  assume "driver a = Some h \<and> driver_session napi h w = (Inr s, w1) \<and>
    session_run napi s q (Some (params_or_empty ps)) w1 = (Inl e, w2) \<and>
    session_exit napi s w2 = (Inr (), w3)"
  then show "neo4j_execute_query napi q ps (a, w) =
        (Inl (Exn PlainException (''Error executing Neo4j query: '' @ str_of e)), (a, w3))"
    by (simp add: neo4j_execute_query_connected with_session_def)
next
  assume "driver a = Some h \<and> neo4j_execute_query napi q ps (a, w) = (Inl x, st)"
  then show "\<exists>e w'. with_session napi h (\<lambda>s. session_run napi s q (Some (params_or_empty ps))) w =
                 (Inl e, w') \<and>
              x = Exn PlainException (''Error executing Neo4j query: '' @ str_of e) \<and>
              st = (a, w')"
    by (auto simp add: neo4j_execute_query_connected split: prod.splits sum.splits)
next
  assume "client b = Some k \<and> client_query sapi k q (Some (params_or_empty ps)) v = (Inl e', v')"
  then show "surreal_execute_query sapi q ps (b, v) =
        (Inl (Exn PlainException (''Error executing SurrealDB query: '' @ str_of e')), (b, v'))"
    by (simp add: surreal_execute_query_connected)
next
  assume "client b = Some k \<and> client_query sapi k q (Some (params_or_empty ps)) v = (Inl e', v')"
  then show "surreal_get_driver sapi (b, v') = (Inr k, (b, v'))"
    by (simp add: surreal_get_driver_def io_defs)
next
  assume "client b = Some k \<and> surreal_execute_query sapi q ps (b, v) = (Inl y, st')"
  then show "\<exists>e v'. client_query sapi k q (Some (params_or_empty ps)) v = (Inl e, v') \<and>
              y = Exn PlainException (''Error executing SurrealDB query: '' @ str_of e) \<and>
              st' = (b, v')"
    by (auto simp add: surreal_execute_query_connected split: prod.splits sum.splits)
qed

theorem failed_query_is_wrapped_witness:
  "neo4j_execute_query (mem_neo4j Healthy) ''MATCH'' None (\<lparr>driver = Some 1\<rparr>, neo4j_world) =
     (Inl (Exn PlainException ''Error executing Neo4j query: Invalid input: MATCH''),
      (\<lparr>driver = Some 1\<rparr>, neo4j_world)) \<and>
   surreal_execute_query (mem_surreal Healthy) ''SELEC'' None
       (\<lparr>client = Some 1, namespace = None, database = None\<rparr>, surreal_world) =
     (Inl (Exn PlainException ''Error executing SurrealDB query: Parse error: SELEC''),
      (\<lparr>client = Some 1, namespace = None, database = None\<rparr>, surreal_world)) \<and>
   surreal_get_driver (mem_surreal Healthy)
       (\<lparr>client = Some 1, namespace = None, database = None\<rparr>, surreal_world) =
     (Inr 1, (\<lparr>client = Some 1, namespace = None, database = None\<rparr>, surreal_world))"
proof -
  have n: "driver \<lparr>driver = Some 1\<rparr> = Some 1 \<and>
      driver_session (mem_neo4j Healthy) 1 neo4j_world = (Inr 2, neo4j_world) \<and>
      session_run (mem_neo4j Healthy) 2 ''MATCH'' (Some (params_or_empty None)) neo4j_world =
        (Inl (Exn Neo4jError ''Invalid input: MATCH''), neo4j_world) \<and>
      session_exit (mem_neo4j Healthy) 2 neo4j_world = (Inr (), neo4j_world)"
    by (simp add: mem_neo4j_defs io_defs params_or_empty_def)
  have s: "client \<lparr>client = Some 1, namespace = None, database = None\<rparr> = Some 1 \<and>
      client_query (mem_surreal Healthy) 1 ''SELEC'' (Some (params_or_empty None)) surreal_world =
        (Inl (Exn BackendError ''Parse error: SELEC''), surreal_world)"
    by (simp add: mem_surreal_defs io_defs params_or_empty_def)
  show ?thesis
    using failed_query_is_wrapped [THEN conjunct2, THEN conjunct1, THEN mp, OF n]
      failed_query_is_wrapped [THEN conjunct2, THEN conjunct2, THEN conjunct2, THEN conjunct1,
        THEN mp, OF s]
    by simp
qed

section \<open>Reading episodes\<close>

lemma with_session_then:
  "with_session api h (\<lambda>s. bind_io (session_run api s q ps) (\<lambda>result.
       bind_io (result_values api result) (\<lambda>records. return_io (f records)))) w =
     (case neo4j_fetch api h q ps w of
        (Inl e, w') \<Rightarrow> (Inl e, w')
      | (Inr records, w') \<Rightarrow> (Inr (f records), w'))"
  by (simp add: with_session_def neo4j_fetch_def io_defs split: prod.splits sum.splits)

lemma bind_get_self: "bind_io get_self f (a, w) = f a (a, w)"
  by (simp add: bind_io_def get_self_def)

lemma on_world_apply: "on_world m (a, w) = (case m w of (r, w') \<Rightarrow> (r, (a, w')))"
  by (simp add: on_world_def)

lemma neo4j_get_one_episode_connected:
  "driver a = Some h \<Longrightarrow>
   neo4j_get_one_episode napi eid (a, w) =
     (case neo4j_fetch napi h neo4j_one_episode_query (Some [(''episode_id'', PStr eid)]) w of
        (Inl e, w') \<Rightarrow> (Inl e, (a, w'))
      | (Inr records, w') \<Rightarrow> (Inr (first_episode records), (a, w')))"
  by (simp add: neo4j_get_one_episode_def bind_get_self on_world_apply with_session_then
      split: prod.splits sum.splits)

lemma neo4j_get_episodes_connected:
  "driver a = Some h \<Longrightarrow>
   neo4j_get_episodes napi (a, w) =
     (case neo4j_fetch napi h neo4j_episodes_query None w of
        (Inl e, w') \<Rightarrow> (Inl e, (a, w'))
      | (Inr records, w') \<Rightarrow> (Inr (List.map_filter episode_of_record records), (a, w')))"
  by (simp add: neo4j_get_episodes_def bind_get_self on_world_apply with_session_then
      split: prod.splits sum.splits)

lemma surreal_get_one_episode_connected:
  "client b = Some k \<Longrightarrow>
   surreal_get_one_episode sapi eid (b, v) =
     (case client_query sapi k surreal_one_episode_query (Some [(''episode_id'', PStr eid)]) v of
        (Inl e, v') \<Rightarrow> (Inl e, (b, v'))
      | (Inr result, v') \<Rightarrow> (unwrap_one_episode result, (b, v')))"
  by (simp add: surreal_get_one_episode_def io_defs split: prod.splits sum.splits)

lemma surreal_get_episodes_connected:
  "client b = Some k \<Longrightarrow>
   surreal_get_episodes sapi (b, v) =
     (case client_query sapi k surreal_episodes_query None v of
        (Inl e, v') \<Rightarrow> (Inl e, (b, v'))
      | (Inr result, v') \<Rightarrow> (unwrap_episodes result, (b, v')))"
  by (simp add: surreal_get_episodes_def io_defs split: prod.splits sum.splits)

lemma absent_unwrap_one_episode: "absent env \<Longrightarrow> unwrap_one_episode env = Inr PNone"
  by (induction env rule: absent.induct) auto

lemma absent_unwrap_episodes: "absent env \<Longrightarrow> unwrap_episodes env = Inr (PList [])"
  by (induction env rule: absent.induct) auto

lemma first_episode_none:
  "first_episode records = None \<longleftrightarrow>
     records = [] \<or> hd records = [] \<or> hd (hd records) = Null \<or> hd (hd records) = Node []"
  by (cases records rule: first_episode.cases; cases "hd records" rule: episode_of_record.cases)
     auto

text \<open>
  Claim C7.  On a connected adapter, when the read finds no Episode of the given id,
  \<open>get_one_episode\<close> returns \<open>None\<close> and raises nothing.  For Neo4j, no Episode
  means that the query, run and fetched in its session, gave no row.  For the
  multi-model client it means that the call of \<open>query\<close> returned an envelope that is
  empty, or whose first outcome has no \<open>result\<close> key, or whose \<open>result\<close> is an
  empty array.
\<close>

theorem absent_episode_is_none:
  "(driver a = Some h \<and>
    neo4j_fetch napi h neo4j_one_episode_query (Some [(''episode_id'', PStr eid)]) w =
      (Inr [], w') \<longrightarrow>
      neo4j_get_one_episode napi eid (a, w) = (Inr None, (a, w'))) \<and>
   (client b = Some k \<and>
    client_query sapi k surreal_one_episode_query (Some [(''episode_id'', PStr eid)]) v =
      (Inr env, v') \<and> absent env \<longrightarrow>
      surreal_get_one_episode sapi eid (b, v) = (Inr PNone, (b, v')))"
  by (simp add: neo4j_get_one_episode_connected surreal_get_one_episode_connected
      absent_unwrap_one_episode)

lemma absent_shapes:
  "absent (PList []) \<and>
   absent (PList [PDict [(''status'', PStr ''OK'')]]) \<and>
   absent (PList [PDict [(''result'', PList []), (''status'', PStr ''OK'')]])"
  by simp

lemma mem_neo4j_no_such_episode:
  "neo4j_fetch (mem_neo4j Healthy) 1 neo4j_one_episode_query
      (Some [(''episode_id'', PStr ''does-not-exist'')]) neo4j_world = (Inr [], neo4j_world)"
  by (simp add: neo4j_fetch_def with_session_def io_defs mem_neo4j_defs neo4j_world_def
      episode_1_def)

lemma mem_neo4j_episode_1:
  "neo4j_get_one_episode (mem_neo4j Healthy) ''ep-1'' (\<lparr>driver = Some 1\<rparr>, neo4j_world) =
     (Inr (Some episode_1), (\<lparr>driver = Some 1\<rparr>, neo4j_world))"
  by (simp add: neo4j_get_one_episode_connected neo4j_fetch_def with_session_def io_defs
      mem_neo4j_defs neo4j_world_def episode_1_def)

lemma mem_surreal_no_such_episode:
  "client_query (mem_surreal Healthy) 1 surreal_one_episode_query
      (Some [(''episode_id'', PStr ''does-not-exist'')]) surreal_world =
     (Inr (PList [PDict [(''result'', PList []), (''status'', PStr ''OK'')]]), surreal_world)"
  by (simp add: io_defs mem_surreal_defs surreal_world_def episode_1_def)

lemma mem_surreal_episode_1:
  "surreal_get_one_episode (mem_surreal Healthy) ''ep-1''
       (\<lparr>client = Some 1, namespace = None, database = None\<rparr>, surreal_world) =
     (Inr (PDict episode_1),
      (\<lparr>client = Some 1, namespace = None, database = None\<rparr>, surreal_world))"
  by (simp add: surreal_get_one_episode_connected io_defs mem_surreal_defs surreal_world_def
      episode_1_def)

theorem absent_episode_is_none_witness:
  "neo4j_get_one_episode (mem_neo4j Healthy) ''does-not-exist''
       (\<lparr>driver = Some 1\<rparr>, neo4j_world) =
     (Inr None, (\<lparr>driver = Some 1\<rparr>, neo4j_world)) \<and>
   surreal_get_one_episode (mem_surreal Healthy) ''does-not-exist''
       (\<lparr>client = Some 1, namespace = None, database = None\<rparr>, surreal_world) =
     (Inr PNone, (\<lparr>client = Some 1, namespace = None, database = None\<rparr>, surreal_world))"
proof -
  have n: "driver \<lparr>driver = Some 1\<rparr> = Some 1 \<and>
      neo4j_fetch (mem_neo4j Healthy) 1 neo4j_one_episode_query
        (Some [(''episode_id'', PStr ''does-not-exist'')]) neo4j_world = (Inr [], neo4j_world)"
    using mem_neo4j_no_such_episode by simp
  have s: "client \<lparr>client = Some 1, namespace = None, database = None\<rparr> = Some 1 \<and>
      client_query (mem_surreal Healthy) 1 surreal_one_episode_query
        (Some [(''episode_id'', PStr ''does-not-exist'')]) surreal_world =
        (Inr (PList [PDict [(''result'', PList []), (''status'', PStr ''OK'')]]), surreal_world) \<and>
      absent (PList [PDict [(''result'', PList []), (''status'', PStr ''OK'')]])"
    using mem_surreal_no_such_episode by simp
  show ?thesis
    using absent_episode_is_none [THEN conjunct1, THEN mp, OF n]
      absent_episode_is_none [THEN conjunct2, THEN mp, OF s]
    by (rule conjI)
qed

section \<open>Provisioning twice\<close>















section \<open>Clearing, then listing\<close>









lemma mem_neo4j_lists_episode_1:
  "neo4j_get_episodes (mem_neo4j Healthy) (\<lparr>driver = Some 1\<rparr>, neo4j_world) =
     (Inr [episode_1], (\<lparr>driver = Some 1\<rparr>, neo4j_world))"
  by (simp add: neo4j_get_episodes_connected neo4j_fetch_def with_session_def io_defs
      mem_neo4j_defs neo4j_world_def episode_1_def List.map_filter_simps)

lemma mem_surreal_lists_episode_1:
  "surreal_get_episodes (mem_surreal Healthy)
       (\<lparr>client = Some 1, namespace = None, database = None\<rparr>, surreal_world) =
     (Inr (PList [PDict episode_1]),
      (\<lparr>client = Some 1, namespace = None, database = None\<rparr>, surreal_world))"
  by (simp add: surreal_get_episodes_connected io_defs mem_surreal_defs surreal_world_def)


end
